theory Spec2Isabelle
  imports Main "HOL-Library.Sublist"
begin

section \<open>The Mascot reader stub of pwiz/data/mziddata (MascotReader\_dummy.cpp)\<close>

text \<open>
  The file is the variant of \<open>MascotReader\<close> that is built when Mascot support is not
  compiled in. It has five methods: \<open>identify\<close>, three overloads of \<open>read\<close> that differ in
  the output parameter, and \<open>getType\<close>. All of them are \<open>const\<close>, none reads the object,
  a parameter or anything else; \<open>identify\<close> and \<open>getType\<close> return a literal and every
  \<open>read\<close> throws a \<open>std::runtime_error\<close> built from a literal.

  A C++ call can return a value or throw, and can write to what it reaches through
  references. Each method is therefore a function from the state before the call to an
  outcome (\<open>Inl\<close> the exception thrown, \<open>Inr\<close> the value returned) and the state after
  the call.
\<close>

subsection \<open>Data\<close>

text \<open>\<open>std::runtime_error\<close> is the only exception the file throws; it carries its text.\<close>

datatype error = runtime_error string

fun what :: "error \<Rightarrow> string" where
  "what (runtime_error msg) = msg"

text \<open>
  The state shared with the caller and with other readers: the files on disk (name and
  content, an association list) and the names of the files opened so far, oldest first.
\<close>

record world =
  files :: "(string \<times> string) list"
  opened :: "string list"

text \<open>
  The result of a call made in a state of type \<open>'s\<close>: what the call produced, and the
  state it left behind.
\<close>

type_synonym ('a, 's) call = "(error + 'a) \<times> 's"

definition outcome :: "('a, 's) call \<Rightarrow> error + 'a" where
  "outcome c = fst c"

definition state_after :: "('a, 's) call \<Rightarrow> 's" where
  "state_after c = snd c"

subsection \<open>The methods\<close>

text \<open>
  \<^verbatim>\<open>std::string MascotReader::identify(const std::string& filename,
                                     const std::string& head) const
  { return ""; }\<close>
\<close>

definition identify :: "string \<Rightarrow> string \<Rightarrow> world \<Rightarrow> (string, world) call" where
  "identify filename head w = (Inr '''', w)"

text \<open>
  The three overloads of \<open>read\<close>. The output parameter is a reference the method could
  write through, so it is part of the state: the document type \<open>MzIdentML\<close> is declared
  outside this file and is the type parameter \<open>'doc\<close>; \<open>MzIdentMLPtr\<close> is a shared pointer
  to a document, null or not (\<open>'doc option\<close>); the third overload takes a vector of such
  pointers.

  \<^verbatim>\<open>void MascotReader::read(const std::string& filename, const std::string& head,
                          MzIdentML& result) const
  { throw runtime_error("[MascotReader::identify] no mascot support enabled."); }\<close>
\<close>

definition read_MzIdentML ::
  "string \<Rightarrow> string \<Rightarrow> 'doc \<times> world \<Rightarrow> (unit, 'doc \<times> world) call" where
  "read_MzIdentML filename head s =
     (Inl (runtime_error ''[MascotReader::identify] no mascot support enabled.''), s)"

text \<open>
  \<^verbatim>\<open>void MascotReader::read(const std::string& filename, const std::string& head,
                          MzIdentMLPtr& result) const
  { throw runtime_error("[MascotReader::read] no mascot support enabled."); }\<close>
\<close>

definition read_MzIdentMLPtr ::
  "string \<Rightarrow> string \<Rightarrow> 'doc option \<times> world \<Rightarrow> (unit, 'doc option \<times> world) call" where
  "read_MzIdentMLPtr filename head s =
     (Inl (runtime_error ''[MascotReader::read] no mascot support enabled.''), s)"

text \<open>
  \<^verbatim>\<open>void MascotReader::read(const std::string& filename, const std::string& head,
                          std::vector<MzIdentMLPtr>& results) const
  { throw runtime_error("[MascotReader::read] no mascot support enabled."); }\<close>
\<close>

definition read_vector ::
  "string \<Rightarrow> string \<Rightarrow> 'doc option list \<times> world \<Rightarrow> (unit, 'doc option list \<times> world) call" where
  "read_vector filename head s =
     (Inl (runtime_error ''[MascotReader::read] no mascot support enabled.''), s)"

text \<open>
  \<^verbatim>\<open>const char *MascotReader::getType() const
  { return "mzIdentML"; }\<close>
\<close>

definition getType :: "world \<Rightarrow> (string, world) call" where
  "getType w = (Inr ''mzIdentML'', w)"

subsection \<open>Vocabulary of the specification\<close>

text \<open>
  The specification sorts failures into four kinds. The code has one exception class, and
  the specification tells the kinds apart by the text of the fault (its section 6: callers
  match on substrings). A feature-disabled fault states that the support for a capability
  is not enabled; this file words it \<open>no mascot support enabled\<close>. The texts of the other
  kinds are produced by the registry, the concrete readers and the I/O layer, none of
  which is in this file, so a text without the feature-disabled wording is left
  unclassified here.
\<close>

datatype failure_kind = UnrecognizedFormat | FeatureDisabled | MalformedInput | IOFailure

definition not_enabled_text :: "string \<Rightarrow> string" where
  "not_enabled_text capability = ''no '' @ capability @ '' support enabled''"

definition failure_kind_of :: "error \<Rightarrow> failure_kind option" where
  "failure_kind_of e =
     (if sublist (not_enabled_text ''mascot'') (what e) then Some FeatureDisabled else None)"

definition succeeds :: "error + 'a \<Rightarrow> bool" where
  "succeeds r = (case r of Inl e \<Rightarrow> False | Inr v \<Rightarrow> True)"

definition fails_with :: "failure_kind \<Rightarrow> error + 'a \<Rightarrow> bool" where
  "fails_with k r = (case r of Inl e \<Rightarrow> failure_kind_of e = Some k | Inr v \<Rightarrow> False)"

text \<open>The fault of a failed call contains the text \<open>t\<close>, or starts with it.\<close>

definition fault_mentions :: "string \<Rightarrow> error + 'a \<Rightarrow> bool" where
  "fault_mentions t r = (case r of Inl e \<Rightarrow> sublist t (what e) | Inr v \<Rightarrow> False)"

definition fault_starts_with :: "string \<Rightarrow> error + 'a \<Rightarrow> bool" where
  "fault_starts_with t r = (case r of Inl e \<Rightarrow> prefix t (what e) | Inr v \<Rightarrow> False)"

text \<open>The string a successful call returned contains the text \<open>t\<close>.\<close>

definition returns_mentioning :: "string \<Rightarrow> error + string \<Rightarrow> bool" where
  "returns_mentioning t r = (case r of Inl e \<Rightarrow> False | Inr v \<Rightarrow> sublist t v)"

text \<open>A state to run the methods in: a disk with no file on it, nothing opened yet.\<close>

definition empty_disk :: world where
  "empty_disk = \<lparr>files = [], opened = []\<rparr>"

section \<open>Properties\<close>

subsection \<open>Evaluating the two fault texts\<close>

lemma read_text_kind:
  "failure_kind_of (runtime_error ''[MascotReader::read] no mascot support enabled.'')
     = Some FeatureDisabled"
  by (simp add: failure_kind_of_def not_enabled_text_def sublist_Cons_right)

lemma identify_text_kind:
  "failure_kind_of (runtime_error ''[MascotReader::identify] no mascot support enabled.'')
     = Some FeatureDisabled"
  by (simp add: failure_kind_of_def not_enabled_text_def sublist_Cons_right)

lemmas method_defs =
  identify_def read_MzIdentML_def read_MzIdentMLPtr_def read_vector_def getType_def
  outcome_def state_after_def

subsection \<open>identify\<close>

text \<open>
  C1. For every file name and every header, \<open>identify\<close> returns the empty string, the
  answer that says "not mine": the stub claims no file, whatever its content.
\<close>

theorem identify_returns_empty:
  "outcome (identify filename head w) = Inr ''''"
  by (simp add: identify_def outcome_def)

text \<open>
  C7. \<open>identify\<close> never raises and never changes the shared state, for any file name and
  header: the call succeeds, no exception is its outcome, and the state after the call is
  the state before it. That the file is not the reader's is said by the returned value
  alone.
\<close>

theorem identify_never_raises:
  "succeeds (outcome (identify filename head w))
   \<and> outcome (identify filename head w) \<noteq> Inl e
   \<and> state_after (identify filename head w) = w"
  by (simp add: method_defs succeeds_def)

subsection \<open>read\<close>

text \<open>
  C2. For every file name and header, each of the three overloads of \<open>read\<close> fails, with
  a feature-disabled fault: its text says that the support is not enabled, names the
  capability (\<open>mascot support\<close>), and mentions \<open>Mascot\<close>.
\<close>

theorem read_raises_feature_disabled:
  "fails_with FeatureDisabled (outcome (read_MzIdentML filename head s1))
   \<and> fails_with FeatureDisabled (outcome (read_MzIdentMLPtr filename head s2))
   \<and> fails_with FeatureDisabled (outcome (read_vector filename head s3))
   \<and> fault_mentions ''mascot support'' (outcome (read_MzIdentML filename head s1))
   \<and> fault_mentions ''mascot support'' (outcome (read_MzIdentMLPtr filename head s2))
   \<and> fault_mentions ''mascot support'' (outcome (read_vector filename head s3))
   \<and> fault_mentions ''Mascot'' (outcome (read_MzIdentML filename head s1))
   \<and> fault_mentions ''Mascot'' (outcome (read_MzIdentMLPtr filename head s2))
   \<and> fault_mentions ''Mascot'' (outcome (read_vector filename head s3))"
proof -
  have kind:
    "fails_with FeatureDisabled (outcome (read_MzIdentML filename head s1))"
    "fails_with FeatureDisabled (outcome (read_MzIdentMLPtr filename head s2))"
    "fails_with FeatureDisabled (outcome (read_vector filename head s3))"
    by (simp_all add: method_defs fails_with_def read_text_kind identify_text_kind)
  have capability:
    "fault_mentions ''mascot support'' (outcome (read_MzIdentML filename head s1))"
    "fault_mentions ''mascot support'' (outcome (read_MzIdentMLPtr filename head s2))"
    "fault_mentions ''mascot support'' (outcome (read_vector filename head s3))"
    by (simp_all add: method_defs fault_mentions_def sublist_Cons_right)
  have name:
    "fault_mentions ''Mascot'' (outcome (read_MzIdentML filename head s1))"
    "fault_mentions ''Mascot'' (outcome (read_MzIdentMLPtr filename head s2))"
    "fault_mentions ''Mascot'' (outcome (read_vector filename head s3))"
    by (simp_all add: method_defs fault_mentions_def sublist_Cons_right)
  from kind capability name show ?thesis by blast
qed

text \<open>
  C4. The claim: the fault of every overload of \<open>read\<close> starts with
  \<open>[MascotReader::read]\<close>, the reader and the operation that was attempted. The overload
  that fills a single document does not: called on a file \<open>F981123.dat\<close>, it throws a
  fault that starts with \<open>[MascotReader::identify]\<close>, naming an operation that was not
  the one called.
\<close>

theorem read_MzIdentML_fault_names_identify:
  "outcome (read_MzIdentML ''F981123.dat'' '''' (''document'', empty_disk))
     = Inl (runtime_error ''[MascotReader::identify] no mascot support enabled.'')
   \<and> \<not> fault_starts_with ''[MascotReader::read]''
         (outcome (read_MzIdentML ''F981123.dat'' '''' (''document'', empty_disk)))
   \<and> fault_starts_with ''[MascotReader::identify]''
         (outcome (read_MzIdentML ''F981123.dat'' '''' (''document'', empty_disk)))"
  by (simp add: method_defs fault_starts_with_def)

text \<open>
  C5. \<open>read\<close> leaves its output as the caller supplied it: for every input and each of
  the three overloads the call fails, and the document, the pointer or the vector after
  the call is the one before it. Nothing is filled in part.
\<close>

theorem read_leaves_output_untouched:
  "\<not> succeeds (outcome (read_MzIdentML filename head (result, w)))
   \<and> fst (state_after (read_MzIdentML filename head (result, w))) = result
   \<and> \<not> succeeds (outcome (read_MzIdentMLPtr filename head (ptr, w)))
   \<and> fst (state_after (read_MzIdentMLPtr filename head (ptr, w))) = ptr
   \<and> \<not> succeeds (outcome (read_vector filename head (results, w)))
   \<and> fst (state_after (read_vector filename head (results, w))) = results"
  by (simp add: method_defs succeeds_def)

text \<open>
  C6. The claim: as \<open>identify\<close> answers "not mine" for a file, \<open>read\<close> called on it
  anyway succeeds, or fails with a malformed-input or an I/O fault. It does neither:
  on \<open>F981123.dat\<close> the call fails, and the fault is of neither of the two kinds.
\<close>

theorem forced_read_counterexample:
  "\<not> (succeeds
         (outcome (read_MzIdentMLPtr ''F981123.dat'' '''' (Some ''document'', empty_disk)))
      \<or> fails_with MalformedInput
         (outcome (read_MzIdentMLPtr ''F981123.dat'' '''' (Some ''document'', empty_disk)))
      \<or> fails_with IOFailure
         (outcome (read_MzIdentMLPtr ''F981123.dat'' '''' (Some ''document'', empty_disk))))"
  by (simp add: method_defs succeeds_def fails_with_def read_text_kind)

text \<open>
  C6, as the code has it. For every file, \<open>identify\<close> answers "not mine", and \<open>read\<close>
  called on it anyway (any overload) does not succeed: it fails with a feature-disabled
  fault. So it never returns an empty result as if it had succeeded.
\<close>

theorem forced_read_fails_feature_disabled:
  "outcome (identify filename head w) = Inr ''''
   \<and> \<not> succeeds (outcome (read_MzIdentML filename head s1))
   \<and> fails_with FeatureDisabled (outcome (read_MzIdentML filename head s1))
   \<and> \<not> succeeds (outcome (read_MzIdentMLPtr filename head s2))
   \<and> fails_with FeatureDisabled (outcome (read_MzIdentMLPtr filename head s2))
   \<and> \<not> succeeds (outcome (read_vector filename head s3))
   \<and> fails_with FeatureDisabled (outcome (read_vector filename head s3))"
  by (simp add: method_defs succeeds_def fails_with_def read_text_kind identify_text_kind)

text \<open>
  C9. \<open>read\<close> does no file I/O before it fails. For every file name and every state of
  the disk, so also when no file of that name exists, each overload fails with the
  feature-disabled fault and not with an I/O fault, and the disk and the list of opened
  files after the call are those before it.
\<close>

theorem read_opens_no_file:
  "fails_with FeatureDisabled (outcome (read_MzIdentML filename head (result, w)))
   \<and> \<not> fails_with IOFailure (outcome (read_MzIdentML filename head (result, w)))
   \<and> snd (state_after (read_MzIdentML filename head (result, w))) = w
   \<and> fails_with FeatureDisabled (outcome (read_MzIdentMLPtr filename head (ptr, w)))
   \<and> \<not> fails_with IOFailure (outcome (read_MzIdentMLPtr filename head (ptr, w)))
   \<and> snd (state_after (read_MzIdentMLPtr filename head (ptr, w))) = w
   \<and> fails_with FeatureDisabled (outcome (read_vector filename head (results, w)))
   \<and> \<not> fails_with IOFailure (outcome (read_vector filename head (results, w)))
   \<and> snd (state_after (read_vector filename head (results, w))) = w"
  by (simp add: method_defs fails_with_def read_text_kind identify_text_kind)

text \<open>
  C10. The three overloads do not throw the same text. The pointer and the vector
  overload throw exactly \<open>[MascotReader::read] no mascot support enabled.\<close>; the
  single-document overload throws exactly
  \<open>[MascotReader::identify] no mascot support enabled.\<close>, a text that differs from the
  other two and puts the failure on \<open>identify\<close>.
\<close>

theorem read_fault_texts:
  "outcome (read_MzIdentMLPtr filename head s2)
     = Inl (runtime_error ''[MascotReader::read] no mascot support enabled.'')
   \<and> outcome (read_vector filename head s3)
     = Inl (runtime_error ''[MascotReader::read] no mascot support enabled.'')
   \<and> outcome (read_MzIdentML filename head s1)
     = Inl (runtime_error ''[MascotReader::identify] no mascot support enabled.'')
   \<and> outcome (read_MzIdentML filename head s1) \<noteq> outcome (read_MzIdentMLPtr filename head s2)
   \<and> outcome (read_MzIdentML filename head s1) \<noteq> outcome (read_vector filename head s3)
   \<and> fault_starts_with ''[MascotReader::identify]''
        (outcome (read_MzIdentML filename head s1))"
  by (simp add: method_defs fault_starts_with_def)

subsection \<open>getType\<close>

text \<open>
  C3. The claim: \<open>getType\<close> returns the name of the format the stub stands for, a Mascot
  format identifier. The string it returns mentions Mascot in neither spelling.
\<close>

theorem getType_counterexample:
  "\<not> (returns_mentioning ''Mascot'' (outcome (getType empty_disk))
      \<or> returns_mentioning ''mascot'' (outcome (getType empty_disk)))"
  by (simp add: method_defs returns_mentioning_def sublist_Cons_right)

text \<open>
  C3, as the code has it. \<open>getType\<close> returns the string \<open>mzIdentML\<close>, the name of the
  document model the reader fills. It is pure and constant: in every state the call
  succeeds with that string and leaves the state as it was.
\<close>

theorem getType_returns_mzIdentML:
  "outcome (getType w) = Inr ''mzIdentML'' \<and> state_after (getType w) = w"
  by (simp add: method_defs)

subsection \<open>The stub as a whole\<close>

text \<open>
  C8. Nothing a method does depends on the file name or on the header. For any two pairs
  of file name and header, \<open>identify\<close> gives the same result, each overload of \<open>read\<close>
  throws the same fault and leaves the same state, and \<open>getType\<close>, which takes neither,
  returns the same string in any two states. Each overload of \<open>read\<close> does raise: on
  both inputs, and whatever the output and the state it is called with, its outcome is a
  \<open>runtime_error\<close>, with one and the same text.
\<close>

theorem stub_ignores_input:
  "identify filename1 head1 w = identify filename2 head2 w
   \<and> read_MzIdentML filename1 head1 s1 = read_MzIdentML filename2 head2 s1
   \<and> read_MzIdentMLPtr filename1 head1 s2 = read_MzIdentMLPtr filename2 head2 s2
   \<and> read_vector filename1 head1 s3 = read_vector filename2 head2 s3
   \<and> outcome (read_MzIdentML filename1 head1 s1)
       = outcome (read_MzIdentML filename2 head2 s1')
   \<and> outcome (read_MzIdentMLPtr filename1 head1 s2)
       = outcome (read_MzIdentMLPtr filename2 head2 s2')
   \<and> outcome (read_vector filename1 head1 s3)
       = outcome (read_vector filename2 head2 s3')
   \<and> outcome (getType w) = outcome (getType w')
   \<and> (\<exists>m. outcome (read_MzIdentML filename1 head1 s1) = Inl (runtime_error m)
          \<and> outcome (read_MzIdentML filename2 head2 s1') = Inl (runtime_error m))
   \<and> (\<exists>m. outcome (read_MzIdentMLPtr filename1 head1 s2) = Inl (runtime_error m)
          \<and> outcome (read_MzIdentMLPtr filename2 head2 s2') = Inl (runtime_error m))
   \<and> (\<exists>m. outcome (read_vector filename1 head1 s3) = Inl (runtime_error m)
          \<and> outcome (read_vector filename2 head2 s3') = Inl (runtime_error m))
   \<and> \<not> succeeds (outcome (read_MzIdentML filename1 head1 s1))
   \<and> \<not> succeeds (outcome (read_MzIdentMLPtr filename1 head1 s2))
   \<and> \<not> succeeds (outcome (read_vector filename1 head1 s3))"
proof -
  have same:
    "identify filename1 head1 w = identify filename2 head2 w"
    "read_MzIdentML filename1 head1 s1 = read_MzIdentML filename2 head2 s1"
    "read_MzIdentMLPtr filename1 head1 s2 = read_MzIdentMLPtr filename2 head2 s2"
    "read_vector filename1 head1 s3 = read_vector filename2 head2 s3"
    "outcome (read_MzIdentML filename1 head1 s1)
       = outcome (read_MzIdentML filename2 head2 s1')"
    "outcome (read_MzIdentMLPtr filename1 head1 s2)
       = outcome (read_MzIdentMLPtr filename2 head2 s2')"
    "outcome (read_vector filename1 head1 s3)
       = outcome (read_vector filename2 head2 s3')"
    "outcome (getType w) = outcome (getType w')"
    by (simp_all add: method_defs)
  have raised:
    "\<exists>m. outcome (read_MzIdentML filename1 head1 s1) = Inl (runtime_error m)
        \<and> outcome (read_MzIdentML filename2 head2 s1') = Inl (runtime_error m)"
    "\<exists>m. outcome (read_MzIdentMLPtr filename1 head1 s2) = Inl (runtime_error m)
        \<and> outcome (read_MzIdentMLPtr filename2 head2 s2') = Inl (runtime_error m)"
    "\<exists>m. outcome (read_vector filename1 head1 s3) = Inl (runtime_error m)
        \<and> outcome (read_vector filename2 head2 s3') = Inl (runtime_error m)"
    by (simp_all add: method_defs)
  have failed:
    "\<not> succeeds (outcome (read_MzIdentML filename1 head1 s1))"
    "\<not> succeeds (outcome (read_MzIdentMLPtr filename1 head1 s2))"
    "\<not> succeeds (outcome (read_vector filename1 head1 s3))"
    by (simp_all add: method_defs succeeds_def)
  from same raised failed show ?thesis by (intro conjI)
qed

end
